theory Spec2Isabelle
  imports Complex_Main "HOL-Library.Sublist"
begin

section \<open>Data model (models/schemas.py)\<close>

text \<open>
  The pydantic classes of \<^verbatim>\<open>models/schemas.py\<close> become records. A field whose name
  is shared by two classes, or that clashes with a HOL constant, carries a prefix
  (\<^verbatim>\<open>UserProfile.id\<close> is \<open>profile_id\<close>, \<^verbatim>\<open>Issue.description\<close> is
  \<open>issue_description\<close>, the fields of \<^verbatim>\<open>ContributionGuide\<close> and
  \<^verbatim>\<open>MentoringPlan\<close> that repeat \<^verbatim>\<open>repo_name\<close> and \<^verbatim>\<open>issue_number\<close> are
  \<open>guide_repo_name\<close>, \<open>plan_repo_name\<close>, \<open>plan_issue_number\<close>). Python's \<^verbatim>\<open>int\<close> is
  \<open>int\<close>, \<^verbatim>\<open>float\<close> payload is carried as \<open>real\<close> (the workflow never computes with
  it), a \<^verbatim>\<open>datetime\<close> is carried as its ISO text, \<^verbatim>\<open>Optional[T]\<close> is \<open>T option\<close>.
\<close>

datatype SkillLevel = BEGINNER | INTERMEDIATE | ADVANCED

type_synonym datetime = string

record UserProfile =
  profile_id :: "int option"
  skill_level :: SkillLevel
  programming_languages :: "string list"
  interests :: "string list"
  time_commitment :: string
  github_username :: "string option"
  profile_created_at :: "datetime option"

record RepositoryMatch =
  repo_name :: string
  repo_url :: string
  description :: string
  stars :: int
  language :: string
  match_score :: real
  match_reasoning :: string
  difficulty_level :: SkillLevel
  community_friendliness_score :: real
  good_first_issues_count :: int
  recent_activity :: bool

record Issue =
  issue_number :: int
  title :: string
  url :: string
  labels :: "string list"
  issue_description :: string
  difficulty_rating :: SkillLevel
  estimated_complexity :: string
  approach_suggestions :: string
  created_at :: datetime
  comments_count :: int

record ContributionGuide =
  guide_repo_name :: string
  setup_instructions :: string
  project_structure :: string
  coding_conventions :: string
  testing_guide :: string
  contribution_workflow :: string
  helpful_resources :: "string list"

record MentoringPlan =
  plan_issue_number :: int
  plan_repo_name :: string
  step_by_step_plan :: "string list"
  key_files_to_examine :: "string list"
  suggested_approach :: string
  git_commands :: "string list"
  testing_strategy :: string
  potential_challenges :: "string list"

section \<open>Workflow state (workflows/agent_workflow.py, lines 23-35)\<close>

text \<open>
  \<^verbatim>\<open>AgentWorkflowState\<close> is a total \<^verbatim>\<open>TypedDict\<close>: every key is present in a
  well-typed state, so the dictionary is a record (and \<^verbatim>\<open>state.get("messages", [])\<close>
  always finds the key). The field \<^verbatim>\<open>messages\<close> is declared
  \<^verbatim>\<open>Annotated[Sequence[str], operator.add]\<close>; what the graph library does with that
  annotation is in \<open>apply_writes\<close> below.
\<close>

record AgentWorkflowState =
  user_profile :: "UserProfile option"
  repositories :: "RepositoryMatch list"
  selected_repo_name :: "string option"
  selected_repo_url :: "string option"
  issues :: "Issue list"
  selected_issue_number :: "int option"
  contribution_guide :: "ContributionGuide option"
  mentoring_plan :: "MentoringPlan option"
  messages :: "string list"
  current_step :: string
  error :: "string option"

section \<open>Stage agents as seen by the workflow\<close>

text \<open>
  The generative-text provider is reached through \<^verbatim>\<open>model.generate_content(prompt, ...)\<close>.
  Every such invocation is logged as a \<open>provider_call\<close>; a function that may invoke the
  provider returns the list of its invocations beside its outcome. The prompt of the
  Preparation agent is an f-string over seven interpolated values; it is represented by
  those values. Prompts of the other agents are carried as text.
\<close>

record guide_prompt =
  prompt_repo_name :: "string option"
  prompt_language :: string
  prompt_description :: string
  prompt_skill_level :: SkillLevel
  prompt_languages :: "string list"
  prompt_readme :: string
  prompt_contributing :: string

datatype provider_call = GenerateGuide guide_prompt | GenerateText string

text \<open>
  An awaited agent call either returns a value (\<open>Inr\<close>) or raises an exception
  \<^verbatim>\<open>e\<close>, of which the workflow only ever uses \<^verbatim>\<open>str(e)\<close> (\<open>Inl\<close>).
\<close>

type_synonym 'a outcome = "provider_call list \<times> (string + 'a)"

text \<open>
  \<^verbatim>\<open>CodePathfinderWorkflow.__init__\<close> stores one agent object per stage; each node calls
  exactly one method of its agent, so the object is represented by that method:
  \<^verbatim>\<open>scout_agent.find_repositories\<close>, \<^verbatim>\<open>issue_matcher.find_suitable_issues\<close>,
  \<^verbatim>\<open>mentoring_agent.create_mentoring_plan\<close>,
  \<^verbatim>\<open>preparation_agent.prepare_onboarding_guide\<close>. The agents are network-bound; they
  are arbitrary functions here. (\<^verbatim>\<open>tracker_agent\<close> is stored but never called by the
  workflow.)
\<close>

record CodePathfinderWorkflow =
  scout_agent :: "UserProfile option \<Rightarrow> RepositoryMatch list outcome"
  issue_matcher :: "UserProfile option \<Rightarrow> string option \<Rightarrow> Issue list outcome"
  mentoring_agent :: "UserProfile option \<Rightarrow> string option \<Rightarrow> int option \<Rightarrow> MentoringPlan outcome"
  preparation_agent :: "UserProfile option \<Rightarrow> string option \<Rightarrow> ContributionGuide outcome"

section \<open>Python helpers\<close>

text \<open>\<^verbatim>\<open>str(n)\<close> for the non-negative integer \<^verbatim>\<open>len(xs)\<close>, in decimal.\<close>

definition digit :: "nat \<Rightarrow> char" where
  "digit d = ''0123456789'' ! d"

function str_nat :: "nat \<Rightarrow> string" where
  "str_nat n = (if n < 10 then [digit n] else str_nat (n div 10) @ [digit (n mod 10)])"
  by pat_completeness auto
termination
  by (relation "measure id") auto

declare str_nat.simps [simp del]

text \<open>
  Truthiness of \<^verbatim>\<open>state.get(k)\<close>: \<^verbatim>\<open>None\<close>, the empty string and the integer 0
  are falsy.
\<close>

fun truthy_str :: "string option \<Rightarrow> bool" where
  "truthy_str None = False"
| "truthy_str (Some s) = (s \<noteq> [])"

fun truthy_int :: "int option \<Rightarrow> bool" where
  "truthy_int None = False"
| "truthy_int (Some i) = (i \<noteq> 0)"

section \<open>Stage transitions (agent_workflow.py, lines 74-163)\<close>

text \<open>
  Each node is a \<^verbatim>\<open>try\<close> block around one awaited agent call, with
  \<^verbatim>\<open>except Exception as e\<close> returning \<^verbatim>\<open>{**state, "error": ..., "messages": ...}\<close>.
  The two \<^verbatim>\<open>state[...] = ...\<close> assignments of the Preparation node and the one of the
  Mentor node happen inside the \<^verbatim>\<open>try\<close>, before the agent call, on the dictionary
  that both \<^verbatim>\<open>return\<close> statements then copy with \<^verbatim>\<open>**state\<close>; they are the
  functions \<open>default_repo\<close> and \<open>default_issue\<close>.
\<close>

definition scout_repositories_node ::
  "CodePathfinderWorkflow \<Rightarrow> AgentWorkflowState \<Rightarrow> provider_call list \<times> AgentWorkflowState" where
  "scout_repositories_node self state =
     (case scout_agent self (user_profile state) of
        (calls, Inr repos) \<Rightarrow>
          (calls, state\<lparr>repositories := repos,
                        messages := messages state @
                          [''Found '' @ str_nat (length repos) @ '' suitable repositories''],
                        current_step := ''repositories_found''\<rparr>)
      | (calls, Inl e) \<Rightarrow>
          (calls, state\<lparr>error := Some (''Error scouting repositories: '' @ e),
                        messages := messages state @ [''Error: '' @ e]\<rparr>))"

definition default_repo :: "AgentWorkflowState \<Rightarrow> AgentWorkflowState" where
  "default_repo state =
     (if \<not> truthy_str (selected_repo_name state) then
        (case repositories state of
           [] \<Rightarrow> state
         | r # _ \<Rightarrow> state\<lparr>selected_repo_name := Some (repo_name r),
                          selected_repo_url := Some (repo_url r)\<rparr>)
      else state)"

definition prepare_onboarding_node ::
  "CodePathfinderWorkflow \<Rightarrow> AgentWorkflowState \<Rightarrow> provider_call list \<times> AgentWorkflowState" where
  "prepare_onboarding_node self state0 =
     (let state = default_repo state0 in
      case preparation_agent self (user_profile state) (selected_repo_name state) of
        (calls, Inr guide) \<Rightarrow>
          (calls, state\<lparr>contribution_guide := Some guide,
                        messages := messages state @ [''Prepared onboarding guide''],
                        current_step := ''guide_prepared''\<rparr>)
      | (calls, Inl e) \<Rightarrow>
          (calls, state\<lparr>error := Some (''Error preparing guide: '' @ e),
                        messages := messages state @ [''Error: '' @ e]\<rparr>))"

definition match_issues_node ::
  "CodePathfinderWorkflow \<Rightarrow> AgentWorkflowState \<Rightarrow> provider_call list \<times> AgentWorkflowState" where
  "match_issues_node self state =
     (case issue_matcher self (user_profile state) (selected_repo_name state) of
        (calls, Inr found) \<Rightarrow>
          (calls, state\<lparr>issues := found,
                        messages := messages state @
                          [''Found '' @ str_nat (length found) @ '' suitable issues''],
                        current_step := ''issues_matched''\<rparr>)
      | (calls, Inl e) \<Rightarrow>
          (calls, state\<lparr>error := Some (''Error matching issues: '' @ e),
                        messages := messages state @ [''Error: '' @ e]\<rparr>))"

definition default_issue :: "AgentWorkflowState \<Rightarrow> AgentWorkflowState" where
  "default_issue state =
     (if \<not> truthy_int (selected_issue_number state) then
        (case issues state of
           [] \<Rightarrow> state
         | i # _ \<Rightarrow> state\<lparr>selected_issue_number := Some (issue_number i)\<rparr>)
      else state)"

definition create_mentoring_plan_node ::
  "CodePathfinderWorkflow \<Rightarrow> AgentWorkflowState \<Rightarrow> provider_call list \<times> AgentWorkflowState" where
  "create_mentoring_plan_node self state0 =
     (let state = default_issue state0 in
      case mentoring_agent self (user_profile state) (selected_repo_name state)
             (selected_issue_number state) of
        (calls, Inr plan) \<Rightarrow>
          (calls, state\<lparr>mentoring_plan := Some plan,
                        messages := messages state @ [''Created mentoring plan''],
                        current_step := ''plan_created''\<rparr>)
      | (calls, Inl e) \<Rightarrow>
          (calls, state\<lparr>error := Some (''Error creating plan: '' @ e),
                        messages := messages state @ [''Error: '' @ e]\<rparr>))"

section \<open>The graph library as the workflow uses it\<close>

text \<open>
  \<^verbatim>\<open>StateGraph(AgentWorkflowState)\<close> is built with \<^verbatim>\<open>add_node\<close>,
  \<^verbatim>\<open>set_entry_point\<close> and \<^verbatim>\<open>add_edge\<close>, then compiled and run with
  \<^verbatim>\<open>ainvoke\<close>. The library is not part of the repository and its version is not
  pinned by it, so the three points below are assumptions of this model about the
  library, not facts read off the repository's code; every result about a whole run
  depends on them, the results about a single stage transition do not:
  \<^item> \<^verbatim>\<open>compile()\<close> validates the graph and raises \<^verbatim>\<open>ValueError\<close> when no entry
    point has been set;
  \<^item> \<^verbatim>\<open>ainvoke(input)\<close> writes the input to the state, runs the entry node, then
    follows the edges until \<^verbatim>\<open>END\<close>, giving up with \<^verbatim>\<open>GraphRecursionError\<close>
    after \<^verbatim>\<open>recursion_limit\<close> (default 25) steps;
  \<^item> a node receives the current state and returns a dictionary of updates; every
    key of the returned dictionary is written to the state, and a key annotated with
    a reducer, \<^verbatim>\<open>Annotated[T, f]\<close>, is written as \<^verbatim>\<open>f(current, update)\<close> instead of
    being overwritten. \<^verbatim>\<open>AgentWorkflowState\<close> annotates exactly \<^verbatim>\<open>messages\<close>, with
    \<^verbatim>\<open>operator.add\<close> (list concatenation).
  A run records, beside the state it returns, the stages it executed in order, each
  with the graph state after that stage, and the provider invocations made.
\<close>

datatype graph_error = ValueError string | GraphRecursionError

type_synonym node_fn = "AgentWorkflowState \<Rightarrow> provider_call list \<times> AgentWorkflowState"

record StateGraph =
  nodes :: "(string \<times> node_fn) list"
  entry_point :: "string option"
  edges :: "(string \<times> string) list"

definition END :: string where
  "END = ''__end__''"

definition new_StateGraph :: StateGraph where
  "new_StateGraph = \<lparr>nodes = [], entry_point = None, edges = []\<rparr>"

definition add_node :: "string \<Rightarrow> node_fn \<Rightarrow> StateGraph \<Rightarrow> StateGraph" where
  "add_node name f g = g\<lparr>nodes := nodes g @ [(name, f)]\<rparr>"

definition set_entry_point :: "string \<Rightarrow> StateGraph \<Rightarrow> StateGraph" where
  "set_entry_point name g = g\<lparr>entry_point := Some name\<rparr>"

definition add_edge :: "string \<Rightarrow> string \<Rightarrow> StateGraph \<Rightarrow> StateGraph" where
  "add_edge a b g = g\<lparr>edges := edges g @ [(a, b)]\<rparr>"

definition compile :: "StateGraph \<Rightarrow> graph_error + StateGraph" where
  "compile g =
     (case entry_point g of
        None \<Rightarrow> Inl (ValueError ''Graph must have an entrypoint'')
      | Some _ \<Rightarrow> Inr g)"

definition apply_writes :: "AgentWorkflowState \<Rightarrow> AgentWorkflowState \<Rightarrow> AgentWorkflowState" where
  "apply_writes current update = update\<lparr>messages := messages current @ messages update\<rparr>"

record WorkflowRun =
  history :: "(string \<times> AgentWorkflowState) list"
  provider_calls :: "provider_call list"
  final_state :: AgentWorkflowState

fun pregel_loop :: "nat \<Rightarrow> StateGraph \<Rightarrow> string \<Rightarrow> WorkflowRun \<Rightarrow> graph_error + WorkflowRun" where
  "pregel_loop 0 g n r = Inl GraphRecursionError"
| "pregel_loop (Suc k) g n r =
     (if n = END then Inr r
      else case map_of (nodes g) n of
             None \<Rightarrow> Inl (ValueError (''Unknown node '' @ n))
           | Some f \<Rightarrow>
               (case f (final_state r) of
                  (calls, update) \<Rightarrow>
                    (let s = apply_writes (final_state r) update;
                         r' = \<lparr>history = history r @ [(n, s)],
                               provider_calls = provider_calls r @ calls,
                               final_state = s\<rparr>
                     in case map_of (edges g) n of
                          None \<Rightarrow> Inr r'
                        | Some n' \<Rightarrow> pregel_loop k g n' r')))"

definition recursion_limit :: nat where
  "recursion_limit = 25"

definition ainvoke :: "StateGraph \<Rightarrow> AgentWorkflowState \<Rightarrow> graph_error + WorkflowRun" where
  "ainvoke g input =
     (case entry_point g of
        None \<Rightarrow> Inl (ValueError ''Graph must have an entrypoint'')
      | Some n \<Rightarrow>
          pregel_loop recursion_limit g n
            \<lparr>history = [], provider_calls = [],
             final_state = input\<lparr>messages := [] @ messages input\<rparr>\<rparr>)"

section \<open>The workflow (agent_workflow.py, lines 54-72 and 165-223)\<close>

definition build_workflow :: "CodePathfinderWorkflow \<Rightarrow> graph_error + StateGraph" where
  "build_workflow self =
     compile
       (add_edge ''create_mentoring_plan'' END
       (add_edge ''match_issues'' ''create_mentoring_plan''
       (add_edge ''prepare_onboarding'' ''match_issues''
       (add_edge ''scout_repositories'' ''prepare_onboarding''
       (set_entry_point ''scout_repositories''
       (add_node ''create_mentoring_plan'' (create_mentoring_plan_node self)
       (add_node ''match_issues'' (match_issues_node self)
       (add_node ''prepare_onboarding'' (prepare_onboarding_node self)
       (add_node ''scout_repositories'' (scout_repositories_node self)
        new_StateGraph)))))))))"

definition initial_state :: "UserProfile \<Rightarrow> AgentWorkflowState" where
  "initial_state profile =
     \<lparr>user_profile = Some profile,
      repositories = [],
      selected_repo_name = None,
      selected_repo_url = None,
      issues = [],
      selected_issue_number = None,
      contribution_guide = None,
      mentoring_plan = None,
      messages = [''Starting CodePathfinder workflow''],
      current_step = ''initializing'',
      error = None\<rparr>"

definition run_full_workflow ::
  "CodePathfinderWorkflow \<Rightarrow> UserProfile \<Rightarrow> graph_error + WorkflowRun" where
  "run_full_workflow self profile =
     (case build_workflow self of
        Inl e \<Rightarrow> Inl e
      | Inr workflow \<Rightarrow> ainvoke workflow (initial_state profile))"

definition partial_graph :: "CodePathfinderWorkflow \<Rightarrow> string \<Rightarrow> StateGraph" where
  "partial_graph self start_node =
     (if start_node = ''prepare_onboarding'' then
        add_edge ''create_mentoring_plan'' END
        (add_edge ''match_issues'' ''create_mentoring_plan''
        (add_edge ''prepare_onboarding'' ''match_issues''
        (set_entry_point ''prepare_onboarding''
        (add_node ''create_mentoring_plan'' (create_mentoring_plan_node self)
        (add_node ''match_issues'' (match_issues_node self)
        (add_node ''prepare_onboarding'' (prepare_onboarding_node self)
         new_StateGraph))))))
      else if start_node = ''match_issues'' then
        add_edge ''create_mentoring_plan'' END
        (add_edge ''match_issues'' ''create_mentoring_plan''
        (set_entry_point ''match_issues''
        (add_node ''create_mentoring_plan'' (create_mentoring_plan_node self)
        (add_node ''match_issues'' (match_issues_node self)
         new_StateGraph))))
      else if start_node = ''create_mentoring_plan'' then
        add_edge ''create_mentoring_plan'' END
        (set_entry_point ''create_mentoring_plan''
        (add_node ''create_mentoring_plan'' (create_mentoring_plan_node self)
         new_StateGraph))
      else new_StateGraph)"

definition run_partial_workflow ::
  "CodePathfinderWorkflow \<Rightarrow> string \<Rightarrow> AgentWorkflowState \<Rightarrow> graph_error + WorkflowRun" where
  "run_partial_workflow self start_node state =
     (case compile (partial_graph self start_node) of
        Inl e \<Rightarrow> Inl e
      | Inr compiled_workflow \<Rightarrow> ainvoke compiled_workflow state)"

section \<open>The Preparation agent (agents/preparation/preparation_agent.py)\<close>

text \<open>
  The agent reads the code host through three \<^verbatim>\<open>GitHubTools\<close> methods, each of which
  catches every exception and returns \<^verbatim>\<open>None\<close> (or \<^verbatim>\<open>{}\<close>); it then calls the
  generative-text provider once. The network, the provider and \<^verbatim>\<open>json.loads\<close> are
  parameters. \<^verbatim>\<open>repo_info\<close> values are carried by their f-string rendering. The
  provider's response is the value of \<^verbatim>\<open>response.text\<close>, or \<open>None\<close> when reading it
  raises. The tracking decorator on the method is taken to pass arguments and result
  through unchanged.
\<close>

record guide_json =
  json_setup_instructions :: string
  json_project_structure :: string
  json_coding_conventions :: string
  json_testing_guide :: string
  json_contribution_workflow :: string
  json_helpful_resources :: "string list"

record PreparationAgent =
  generate_content :: "guide_prompt \<Rightarrow> string + string option"
  get_readme :: "string option \<Rightarrow> string option"
  get_contributing_guide :: "string option \<Rightarrow> string option"
  get_repository_info :: "string option \<Rightarrow> (string \<times> string) list"
  json_loads_guide :: "string \<Rightarrow> guide_json option"

text \<open>\<^verbatim>\<open>s.find(c)\<close> and \<^verbatim>\<open>s.rfind(c)\<close> for a one-character needle: -1 when absent.\<close>

fun str_find :: "string \<Rightarrow> char \<Rightarrow> int" where
  "str_find [] c = -1"
| "str_find (x # xs) c =
     (if x = c then 0 else (let i = str_find xs c in if i < 0 then -1 else i + 1))"

definition str_rfind :: "string \<Rightarrow> char \<Rightarrow> int" where
  "str_rfind s c =
     (let i = str_find (rev s) c in if i < 0 then -1 else int (length s) - 1 - i)"

text \<open>\<^verbatim>\<open>s[start:stop]\<close>: a negative bound counts from the end, both are clamped.\<close>

definition py_bound :: "nat \<Rightarrow> int \<Rightarrow> nat" where
  "py_bound n i = (if i < 0 then nat (max 0 (int n + i)) else min (nat i) n)"

definition py_slice :: "string \<Rightarrow> int \<Rightarrow> int \<Rightarrow> string" where
  "py_slice s start stop =
     (let a = py_bound (length s) start; b = py_bound (length s) stop
      in take (b - a) (drop a s))"

text \<open>\<^verbatim>\<open>s.lower()\<close> on ASCII letters; other characters are left as they are.\<close>

definition lower_char :: "char \<Rightarrow> char" where
  "lower_char c =
     (let n = (of_char c :: nat) in if 65 \<le> n \<and> n \<le> 90 then char_of (n + 32) else c)"

definition lower :: "string \<Rightarrow> string" where
  "lower s = map lower_char s"

text \<open>\<^verbatim>\<open>s.index(k)\<close>, as \<open>None\<close> where Python's \<^verbatim>\<open>k in s\<close> is false.\<close>

fun str_index :: "string \<Rightarrow> string \<Rightarrow> nat option" where
  "str_index [] k = (if k = [] then Some 0 else None)"
| "str_index (x # xs) k =
     (if prefix k (x # xs) then Some 0 else map_option Suc (str_index xs k))"

fun first_keyword :: "string \<Rightarrow> string list \<Rightarrow> nat option" where
  "first_keyword s [] = None"
| "first_keyword s (k # ks) =
     (case str_index s k of Some i \<Rightarrow> Some i | None \<Rightarrow> first_keyword s ks)"

definition extract_section :: "string list \<Rightarrow> nat \<Rightarrow> string option \<Rightarrow> string option" where
  "extract_section keywords width doc =
     (case doc of
        None \<Rightarrow> None
      | Some text \<Rightarrow>
          (if text = [] then None
           else case first_keyword (lower text) keywords of
                  None \<Rightarrow> None
                | Some start \<Rightarrow> Some (take (min (start + width) (length text) - start) (drop start text))))"

definition extract_setup_from_readme :: "string option \<Rightarrow> string option" where
  "extract_setup_from_readme readme =
     extract_section [''## installation'', ''## setup'', ''## getting started'', ''## quick start'']
       500 readme"

definition extract_conventions :: "string option \<Rightarrow> string option" where
  "extract_conventions contributing =
     extract_section [''## style'', ''## coding'', ''## convention''] 400 contributing"

text \<open>\<^verbatim>\<open>x or d\<close> for an optional string.\<close>

definition or_else :: "string option \<Rightarrow> string \<Rightarrow> string" where
  "or_else x d = (if truthy_str x then the x else d)"

text \<open>\<^verbatim>\<open>f"{x}"\<close> for an optional string.\<close>

fun fmt :: "string option \<Rightarrow> string" where
  "fmt None = ''None''"
| "fmt (Some s) = s"

text \<open>
  \<^verbatim>\<open>ContributionGuide(repo_name=..., ...)\<close>: the class declares \<^verbatim>\<open>repo_name: str\<close>, a
  required field that is not \<^verbatim>\<open>Optional\<close>. The model assumes that the validation
  library rejects \<^verbatim>\<open>None\<close> for such a field with a validation error; the text of that
  error is the library's and is represented by a fixed string.
\<close>

definition new_ContributionGuide :: "string option \<Rightarrow> guide_json \<Rightarrow> string + ContributionGuide" where
  "new_ContributionGuide name j =
     (case name of
        None \<Rightarrow> Inl ''1 validation error for ContributionGuide''
      | Some n \<Rightarrow>
          Inr \<lparr>guide_repo_name = n,
               setup_instructions = json_setup_instructions j,
               project_structure = json_project_structure j,
               coding_conventions = json_coding_conventions j,
               testing_guide = json_testing_guide j,
               contribution_workflow = json_contribution_workflow j,
               helpful_resources = json_helpful_resources j\<rparr>)"

definition make_prompt ::
  "UserProfile \<Rightarrow> string option \<Rightarrow> string option \<Rightarrow> string option \<Rightarrow> (string \<times> string) list
     \<Rightarrow> guide_prompt" where
  "make_prompt profile name readme contributing repo_info =
     \<lparr>prompt_repo_name = name,
      prompt_language = (case map_of repo_info ''language'' of None \<Rightarrow> ''Unknown'' | Some v \<Rightarrow> v),
      prompt_description = (case map_of repo_info ''description'' of None \<Rightarrow> ''N/A'' | Some v \<Rightarrow> v),
      prompt_skill_level = skill_level profile,
      prompt_languages = programming_languages profile,
      prompt_readme = take 1000 (or_else readme ''Not available''),
      prompt_contributing = take 1000 (or_else contributing ''Not available'')\<rparr>"

definition fallback_guide :: "string option \<Rightarrow> string option \<Rightarrow> string option \<Rightarrow> guide_json" where
  "fallback_guide name readme contributing =
     \<lparr>json_setup_instructions =
        or_else (extract_setup_from_readme readme)
          ''Clone the repository and follow README instructions'',
      json_project_structure = ''Explore the repository to understand the structure'',
      json_coding_conventions =
        or_else (extract_conventions contributing) ''Follow the project's existing code style'',
      json_testing_guide = ''Check README or CONTRIBUTING.md for testing instructions'',
      json_contribution_workflow = ''Standard GitHub flow: fork, branch, commit, push, PR'',
      json_helpful_resources =
        [''Repository: https://github.com/'' @ fmt name,
         ''GitHub Flow Guide: https://guides.github.com/introduction/flow/'']\<rparr>"

text \<open>\<^verbatim>\<open>str(e)\<close> of the \<^verbatim>\<open>AttributeError\<close> raised by \<^verbatim>\<open>user_profile.skill_level\<close> on \<^verbatim>\<open>None\<close>.\<close>

definition attribute_error :: string where
  "attribute_error =
     [CHR 0x27] @ ''NoneType'' @ [CHR 0x27] @ '' object has no attribute '' @
     [CHR 0x27] @ ''skill_level'' @ [CHR 0x27]"

definition parse_response :: "PreparationAgent \<Rightarrow> string option \<Rightarrow> string option \<Rightarrow> string + ContributionGuide" where
  "parse_response agent name response =
     (case response of
        None \<Rightarrow> Inl ''response has no text''
      | Some response_text \<Rightarrow>
          (let json_start = str_find response_text CHR ''{'';
               json_end = str_rfind response_text CHR ''}'' + 1
           in case json_loads_guide agent (py_slice response_text json_start json_end) of
                None \<Rightarrow> Inl ''invalid guide JSON''
              | Some j \<Rightarrow> new_ContributionGuide name j))"

definition generate_guide ::
  "PreparationAgent \<Rightarrow> UserProfile option \<Rightarrow> string option \<Rightarrow> string option \<Rightarrow> string option
     \<Rightarrow> (string \<times> string) list \<Rightarrow> ContributionGuide outcome" where
  "generate_guide agent profile name readme contributing repo_info =
     (case profile of
        None \<Rightarrow> ([], Inl attribute_error)
      | Some p \<Rightarrow>
          (let prompt = make_prompt p name readme contributing repo_info in
           case generate_content agent prompt of
             Inl e \<Rightarrow> ([GenerateGuide prompt], Inl e)
           | Inr response \<Rightarrow>
               ([GenerateGuide prompt],
                case parse_response agent name response of
                  Inr guide \<Rightarrow> Inr guide
                | Inl _ \<Rightarrow> new_ContributionGuide name (fallback_guide name readme contributing))))"

definition prepare_onboarding_guide ::
  "PreparationAgent \<Rightarrow> UserProfile option \<Rightarrow> string option \<Rightarrow> ContributionGuide outcome" where
  "prepare_onboarding_guide agent profile name =
     (let readme = get_readme agent name;
          contributing = get_contributing_guide agent name;
          repo_info = get_repository_info agent name
      in generate_guide agent profile name readme contributing repo_info)"

section \<open>Concrete inputs\<close>

definition repoA :: RepositoryMatch where
  "repoA = \<lparr>repo_name = ''octo/alpha'', repo_url = ''https://github.com/octo/alpha'',
     description = ''d'', stars = 120, language = ''Python'', match_score = 1,
     match_reasoning = ''r'', difficulty_level = BEGINNER, community_friendliness_score = 1,
     good_first_issues_count = 4, recent_activity = True\<rparr>"

definition issue7 :: Issue where
  "issue7 = \<lparr>issue_number = 7, title = ''t'', url = ''u'', labels = [], issue_description = ''b'',
     difficulty_rating = BEGINNER, estimated_complexity = ''low'', approach_suggestions = ''a'',
     created_at = ''2024-01-01'', comments_count = 0\<rparr>"

definition profile0 :: UserProfile where
  "profile0 = \<lparr>profile_id = None, skill_level = BEGINNER, programming_languages = [''Python''],
     interests = [], time_commitment = ''2'', github_username = None, profile_created_at = None\<rparr>"

definition guide0 :: ContributionGuide where
  "guide0 = \<lparr>guide_repo_name = ''octo/alpha'', setup_instructions = ''s'', project_structure = ''p'',
     coding_conventions = ''c'', testing_guide = ''t'', contribution_workflow = ''w'',
     helpful_resources = []\<rparr>"

definition plan0 :: MentoringPlan where
  "plan0 = \<lparr>plan_issue_number = 7, plan_repo_name = ''octo/alpha'', step_by_step_plan = [],
     key_files_to_examine = [], suggested_approach = ''a'', git_commands = [],
     testing_strategy = ''t'', potential_challenges = []\<rparr>"

text \<open>Agents that all raise, and agents that all return.\<close>

definition failing_agents :: CodePathfinderWorkflow where
  "failing_agents = \<lparr>scout_agent = (\<lambda>p. ([], Inl ''down'')),
     issue_matcher = (\<lambda>p r. ([], Inl ''down'')),
     mentoring_agent = (\<lambda>p r i. ([], Inl ''down'')),
     preparation_agent = (\<lambda>p r. ([], Inl ''down''))\<rparr>"

definition working_agents :: CodePathfinderWorkflow where
  "working_agents = \<lparr>scout_agent = (\<lambda>p. ([], Inr [repoA])),
     issue_matcher = (\<lambda>p r. ([], Inr [issue7])),
     mentoring_agent = (\<lambda>p r i. ([], Inr plan0)),
     preparation_agent = (\<lambda>p r. ([], Inr guide0))\<rparr>"

text \<open>A state in which Scout has found one repository and nothing is selected.\<close>

definition scouted_state :: AgentWorkflowState where
  "scouted_state = (initial_state profile0)\<lparr>repositories := [repoA]\<rparr>"

text \<open>A state whose selections are set, to the falsy values.\<close>

definition falsy_state :: AgentWorkflowState where
  "falsy_state = (initial_state profile0)
     \<lparr>repositories := [repoA], issues := [issue7],
      selected_repo_name := Some [], selected_issue_number := Some 0\<rparr>"

text \<open>
  A Preparation agent whose code host knows no repository and whose provider answers
  with a well-formed guide, and a workflow that uses it.
\<close>

definition json0 :: guide_json where
  "json0 = \<lparr>json_setup_instructions = ''s'', json_project_structure = ''p'',
     json_coding_conventions = ''c'', json_testing_guide = ''t'',
     json_contribution_workflow = ''w'', json_helpful_resources = []\<rparr>"

definition answering_agent :: PreparationAgent where
  "answering_agent = \<lparr>generate_content = (\<lambda>p. Inr (Some ''{}'')),
     get_readme = (\<lambda>n. None), get_contributing_guide = (\<lambda>n. None),
     get_repository_info = (\<lambda>n. []), json_loads_guide = (\<lambda>t. Some json0)\<rparr>"

definition answering_workflow :: CodePathfinderWorkflow where
  "answering_workflow = working_agents\<lparr>preparation_agent := prepare_onboarding_guide answering_agent\<rparr>"

text \<open>Agents of which Preparation and Mentor raise and the other two return.\<close>

definition flaky_agents :: CodePathfinderWorkflow where
  "flaky_agents = \<lparr>scout_agent = (\<lambda>p. ([], Inr [repoA])),
     issue_matcher = (\<lambda>p r. ([], Inr [issue7])),
     mentoring_agent = (\<lambda>p r i. ([], Inl ''no plan'')),
     preparation_agent = (\<lambda>p r. ([], Inl ''no guide''))\<rparr>"

section \<open>Graph state after one stage\<close>

text \<open>
  The graph state after running node \<open>f\<close> on graph state \<open>s\<close>: the node's returned
  dictionary written to \<open>s\<close>, as \<open>pregel_loop\<close> does.
\<close>

definition superstep :: "node_fn \<Rightarrow> AgentWorkflowState \<Rightarrow> AgentWorkflowState" where
  "superstep f s = apply_writes s (snd (f s))"

section \<open>Frame of the two defaulting steps\<close>

lemma default_repo_frame:
  "user_profile (default_repo s) = user_profile s"
  "repositories (default_repo s) = repositories s"
  "issues (default_repo s) = issues s"
  "selected_issue_number (default_repo s) = selected_issue_number s"
  "contribution_guide (default_repo s) = contribution_guide s"
  "mentoring_plan (default_repo s) = mentoring_plan s"
  "messages (default_repo s) = messages s"
  "current_step (default_repo s) = current_step s"
  "error (default_repo s) = error s"
  by (simp_all add: default_repo_def split: list.splits)

lemma default_issue_frame:
  "user_profile (default_issue s) = user_profile s"
  "repositories (default_issue s) = repositories s"
  "issues (default_issue s) = issues s"
  "selected_repo_name (default_issue s) = selected_repo_name s"
  "selected_repo_url (default_issue s) = selected_repo_url s"
  "contribution_guide (default_issue s) = contribution_guide s"
  "mentoring_plan (default_issue s) = mentoring_plan s"
  "messages (default_issue s) = messages s"
  "current_step (default_issue s) = current_step s"
  "error (default_issue s) = error s"
  by (simp_all add: default_issue_def split: list.splits)

section \<open>Falsy selections\<close>

text \<open>
  C10. The defaulting checks test truthiness, so a selection that is set to a falsy
  value is treated as unset: with \<open>selected_issue_number = 0\<close> and a non-empty
  \<open>issues\<close>, the Mentor transition returns the first issue's number as the selection,
  and with \<open>selected_repo_name = ""\<close> and a non-empty \<open>repositories\<close>, the Preparation
  transition returns the first repository's name; this is so whether the agent call
  then succeeds or fails.
\<close>

theorem falsy_selection_overwritten:
  "(selected_issue_number s = Some 0 \<and> issues s \<noteq> [] \<longrightarrow>
      selected_issue_number (snd (create_mentoring_plan_node self s))
        = Some (issue_number (hd (issues s))))
   \<and> (selected_repo_name s = Some [] \<and> repositories s \<noteq> [] \<longrightarrow>
      selected_repo_name (snd (prepare_onboarding_node self s))
        = Some (repo_name (hd (repositories s))))"
  by (auto simp: create_mentoring_plan_node_def prepare_onboarding_node_def default_issue_def
        default_repo_def Let_def split: prod.splits sum.splits list.splits)

theorem falsy_selection_overwritten_witness:
  "selected_issue_number falsy_state = Some 0 \<and> issues falsy_state \<noteq> []
   \<and> selected_issue_number (snd (create_mentoring_plan_node working_agents falsy_state)) = Some 7
   \<and> selected_repo_name falsy_state = Some [] \<and> repositories falsy_state \<noteq> []
   \<and> selected_repo_name (snd (prepare_onboarding_node working_agents falsy_state))
        = Some ''octo/alpha''"
  using falsy_selection_overwritten [of falsy_state working_agents]
  by (simp add: falsy_state_def initial_state_def issue7_def repoA_def)

section \<open>A failing stage transition\<close>

text \<open>
  C2, as stated, fails: the Preparation node fills the repository selection inside its
  \<^verbatim>\<open>try\<close> block before it calls the agent, and the \<^verbatim>\<open>except\<close> branch copies the
  state that already carries it. On a state with one repository and no selection, with
  an agent that raises, the returned \<open>selected_repo_name\<close> differs from the input's.
\<close>

theorem failure_frame_counterexample:
  "selected_repo_name (snd (prepare_onboarding_node failing_agents scouted_state))
     \<noteq> selected_repo_name scouted_state"
  by (simp add: prepare_onboarding_node_def failing_agents_def scouted_state_def
        initial_state_def default_repo_def repoA_def)

text \<open>
  C2, amended. When the agent call of a stage raises with description \<open>e\<close>, the
  returned state is the input state after the stage's precondition default (none for
  Scout and Issue-Matcher, \<open>default_repo\<close> for Preparation, \<open>default_issue\<close> for Mentor),
  changed in exactly two fields: \<open>error\<close> is the stage's prefix followed by \<open>e\<close>, and
  \<open>messages\<close> is the input's messages followed by the one entry \<open>"Error: " + e\<close>.
  The defaults touch only the selection fields, so the owned fields and
  \<open>current_step\<close> are the input's.
\<close>

theorem failure_frame:
  "(snd (scout_agent self (user_profile s)) = Inl e \<longrightarrow>
      snd (scout_repositories_node self s) =
        s\<lparr>error := Some (''Error scouting repositories: '' @ e),
          messages := messages s @ [''Error: '' @ e]\<rparr>)
   \<and> (snd (preparation_agent self (user_profile s) (selected_repo_name (default_repo s))) = Inl e \<longrightarrow>
      snd (prepare_onboarding_node self s) =
        (default_repo s)\<lparr>error := Some (''Error preparing guide: '' @ e),
                         messages := messages s @ [''Error: '' @ e]\<rparr>
      \<and> contribution_guide (snd (prepare_onboarding_node self s)) = contribution_guide s
      \<and> current_step (snd (prepare_onboarding_node self s)) = current_step s
      \<and> selected_issue_number (snd (prepare_onboarding_node self s)) = selected_issue_number s)
   \<and> (snd (issue_matcher self (user_profile s) (selected_repo_name s)) = Inl e \<longrightarrow>
      snd (match_issues_node self s) =
        s\<lparr>error := Some (''Error matching issues: '' @ e),
          messages := messages s @ [''Error: '' @ e]\<rparr>)
   \<and> (snd (mentoring_agent self (user_profile s) (selected_repo_name s)
              (selected_issue_number (default_issue s))) = Inl e \<longrightarrow>
      snd (create_mentoring_plan_node self s) =
        (default_issue s)\<lparr>error := Some (''Error creating plan: '' @ e),
                          messages := messages s @ [''Error: '' @ e]\<rparr>
      \<and> mentoring_plan (snd (create_mentoring_plan_node self s)) = mentoring_plan s
      \<and> current_step (snd (create_mentoring_plan_node self s)) = current_step s
      \<and> selected_repo_name (snd (create_mentoring_plan_node self s)) = selected_repo_name s
      \<and> selected_repo_url (snd (create_mentoring_plan_node self s)) = selected_repo_url s)"
  by (auto simp: scout_repositories_node_def prepare_onboarding_node_def match_issues_node_def
        create_mentoring_plan_node_def Let_def default_repo_frame default_issue_frame
        split: prod.splits sum.splits)

theorem failure_frame_witness:
  "snd (scout_agent failing_agents (user_profile scouted_state)) = Inl ''down''
   \<and> error (snd (scout_repositories_node failing_agents scouted_state))
        = Some ''Error scouting repositories: down''
   \<and> snd (preparation_agent failing_agents (user_profile scouted_state)
            (selected_repo_name (default_repo scouted_state))) = Inl ''down''
   \<and> messages (snd (prepare_onboarding_node failing_agents scouted_state))
        = [''Starting CodePathfinder workflow'', ''Error: down'']
   \<and> snd (issue_matcher failing_agents (user_profile scouted_state)
            (selected_repo_name scouted_state)) = Inl ''down''
   \<and> error (snd (match_issues_node failing_agents scouted_state))
        = Some ''Error matching issues: down''
   \<and> snd (mentoring_agent failing_agents (user_profile scouted_state)
            (selected_repo_name scouted_state)
            (selected_issue_number (default_issue scouted_state))) = Inl ''down''
   \<and> error (snd (create_mentoring_plan_node failing_agents scouted_state))
        = Some ''Error creating plan: down''"
  using failure_frame [of failing_agents scouted_state "''down''"]
  by (simp add: failing_agents_def scouted_state_def initial_state_def default_repo_frame)

section \<open>A succeeding stage transition\<close>

lemma str_nat_small: "n < 10 \<Longrightarrow> str_nat n = [digit n]"
  by (simp add: str_nat.simps)

text \<open>
  C3, as stated, fails: on success the Preparation node returns, beside its owned
  field, the repository selection it has just defaulted. On a state with one
  repository and no selection, with an agent that returns, the returned
  \<open>selected_repo_name\<close> differs from the input's.
\<close>

theorem success_frame_counterexample:
  "selected_repo_name (snd (prepare_onboarding_node working_agents scouted_state))
     \<noteq> selected_repo_name scouted_state"
  by (simp add: prepare_onboarding_node_def working_agents_def scouted_state_def
        initial_state_def default_repo_def repoA_def)

text \<open>
  C3, amended. When the agent call of a stage returns a value, the returned state is
  the input state after the stage's precondition default (none for Scout and
  Issue-Matcher, \<open>default_repo\<close> for Preparation, \<open>default_issue\<close> for Mentor), with
  the stage's owned field overwritten by that value, exactly one progress message
  appended to the input's messages, and \<open>current_step\<close> set to the stage's label;
  \<open>error\<close> is the input's, whatever it was.
\<close>

theorem success_frame:
  "(snd (scout_agent self (user_profile s)) = Inr repos \<longrightarrow>
      snd (scout_repositories_node self s) =
        s\<lparr>repositories := repos,
          messages := messages s @ [''Found '' @ str_nat (length repos) @ '' suitable repositories''],
          current_step := ''repositories_found''\<rparr>
      \<and> error (snd (scout_repositories_node self s)) = error s)
   \<and> (snd (preparation_agent self (user_profile s) (selected_repo_name (default_repo s))) = Inr guide \<longrightarrow>
      snd (prepare_onboarding_node self s) =
        (default_repo s)\<lparr>contribution_guide := Some guide,
                         messages := messages s @ [''Prepared onboarding guide''],
                         current_step := ''guide_prepared''\<rparr>
      \<and> error (snd (prepare_onboarding_node self s)) = error s)
   \<and> (snd (issue_matcher self (user_profile s) (selected_repo_name s)) = Inr found \<longrightarrow>
      snd (match_issues_node self s) =
        s\<lparr>issues := found,
          messages := messages s @ [''Found '' @ str_nat (length found) @ '' suitable issues''],
          current_step := ''issues_matched''\<rparr>
      \<and> error (snd (match_issues_node self s)) = error s)
   \<and> (snd (mentoring_agent self (user_profile s) (selected_repo_name s)
              (selected_issue_number (default_issue s))) = Inr plan \<longrightarrow>
      snd (create_mentoring_plan_node self s) =
        (default_issue s)\<lparr>mentoring_plan := Some plan,
                          messages := messages s @ [''Created mentoring plan''],
                          current_step := ''plan_created''\<rparr>
      \<and> error (snd (create_mentoring_plan_node self s)) = error s)"
  by (auto simp: scout_repositories_node_def prepare_onboarding_node_def match_issues_node_def
        create_mentoring_plan_node_def Let_def default_repo_frame default_issue_frame
        split: prod.splits sum.splits)

theorem success_frame_witness:
  "snd (scout_agent working_agents (user_profile (scouted_state\<lparr>error := Some ''earlier''\<rparr>)))
     = Inr [repoA]
   \<and> error (snd (scout_repositories_node working_agents (scouted_state\<lparr>error := Some ''earlier''\<rparr>)))
     = Some ''earlier''
   \<and> messages (snd (scout_repositories_node working_agents (scouted_state\<lparr>error := Some ''earlier''\<rparr>)))
     = [''Starting CodePathfinder workflow'', ''Found 1 suitable repositories'']
   \<and> current_step (snd (prepare_onboarding_node working_agents (scouted_state\<lparr>error := Some ''earlier''\<rparr>)))
     = ''guide_prepared''
   \<and> current_step (snd (match_issues_node working_agents (scouted_state\<lparr>error := Some ''earlier''\<rparr>)))
     = ''issues_matched''
   \<and> current_step (snd (create_mentoring_plan_node working_agents (scouted_state\<lparr>error := Some ''earlier''\<rparr>)))
     = ''plan_created''"
  using success_frame [of working_agents "scouted_state\<lparr>error := Some ''earlier''\<rparr>"
      "[repoA]" guide0 "[issue7]" plan0]
  by (simp add: working_agents_def scouted_state_def initial_state_def default_repo_frame
        default_issue_frame str_nat_small digit_def)

section \<open>Preparation without a repository\<close>

lemma new_ContributionGuide_None: "new_ContributionGuide None j = Inl ''1 validation error for ContributionGuide''"
  by (simp add: new_ContributionGuide_def)

lemma parse_response_None: "\<exists>e. parse_response agent None response = Inl e"
  by (simp add: parse_response_def new_ContributionGuide_None Let_def split: option.splits)

lemma generate_guide_None:
  "\<exists>e. generate_guide agent (Some p) None readme contributing repo_info =
         ([GenerateGuide (make_prompt p None readme contributing repo_info)], Inl e)"
proof (cases "generate_content agent (make_prompt p None readme contributing repo_info)")
  case (Inl e)
  then show ?thesis by (simp add: generate_guide_def Let_def)
next
  case (Inr response)
  obtain e where "parse_response agent None response = Inl e"
    using parse_response_None by blast
  with Inr show ?thesis
    by (simp add: generate_guide_def Let_def new_ContributionGuide_None)
qed

lemma default_repo_nothing:
  "repositories s = [] \<Longrightarrow> default_repo s = s"
  by (simp add: default_repo_def)

text \<open>
  C6, as stated, fails: the Preparation node has no precondition check. With
  \<open>repositories\<close> empty and no selection it calls the agent with a null repository
  name, and the agent invokes the generative-text provider with a prompt built from
  that null name.
\<close>

theorem preparation_precondition_counterexample:
  "repositories (initial_state profile0) = []
   \<and> selected_repo_name (initial_state profile0) = None
   \<and> fst (prepare_onboarding_node answering_workflow (initial_state profile0))
       = [GenerateGuide \<lparr>prompt_repo_name = None, prompt_language = ''Unknown'',
            prompt_description = ''N/A'', prompt_skill_level = BEGINNER,
            prompt_languages = [''Python''], prompt_readme = ''Not available'',
            prompt_contributing = ''Not available''\<rparr>]"
  by (simp add: prepare_onboarding_node_def answering_workflow_def working_agents_def
        initial_state_def default_repo_def prepare_onboarding_guide_def generate_guide_def
        answering_agent_def make_prompt_def or_else_def profile0_def Let_def
        split: prod.splits sum.splits)

text \<open>
  C6, amended. With \<open>repositories\<close> empty, \<open>selected_repo_name\<close> unset and a user
  profile present, the Preparation transition (with the repository's Preparation agent)
  invokes the generative-text provider exactly once, with the prompt built from the
  null repository name, and then records a failure: \<open>error\<close> is set to the stage's
  prefix followed by a fault description, exactly one message is appended, and
  \<open>contribution_guide\<close>, \<open>current_step\<close> and the selection are the input's. The
  failure comes from the agent call raising (the provider itself, or the construction
  of a guide with a null name), not from a check made before the call.
\<close>

theorem preparation_without_repository:
  "preparation_agent self = prepare_onboarding_guide agent \<and> repositories s = []
     \<and> selected_repo_name s = None \<and> user_profile s = Some p \<longrightarrow>
   fst (prepare_onboarding_node self s) =
     [GenerateGuide (make_prompt p None (get_readme agent None)
        (get_contributing_guide agent None) (get_repository_info agent None))]
   \<and> (\<exists>e. snd (prepare_onboarding_node self s) =
          s\<lparr>error := Some (''Error preparing guide: '' @ e),
            messages := messages s @ [''Error: '' @ e]\<rparr>)"
proof (intro impI)
  assume h: "preparation_agent self = prepare_onboarding_guide agent \<and> repositories s = []
     \<and> selected_repo_name s = None \<and> user_profile s = Some p"
  let ?pr = "make_prompt p None (get_readme agent None)
        (get_contributing_guide agent None) (get_repository_info agent None)"
  obtain e where e: "prepare_onboarding_guide agent (Some p) None = ([GenerateGuide ?pr], Inl e)"
    using generate_guide_None [of agent p "get_readme agent None"
        "get_contributing_guide agent None" "get_repository_info agent None"]
    by (auto simp: prepare_onboarding_guide_def Let_def)
  from h have d: "default_repo s = s" by (simp add: default_repo_nothing)
  from h d e have "prepare_onboarding_node self s =
      ([GenerateGuide ?pr], s\<lparr>error := Some (''Error preparing guide: '' @ e),
            messages := messages s @ [''Error: '' @ e]\<rparr>)"
    by (simp add: prepare_onboarding_node_def Let_def)
  then show "fst (prepare_onboarding_node self s) = [GenerateGuide ?pr]
   \<and> (\<exists>e. snd (prepare_onboarding_node self s) =
          s\<lparr>error := Some (''Error preparing guide: '' @ e),
            messages := messages s @ [''Error: '' @ e]\<rparr>)"
    by auto
qed

theorem preparation_without_repository_witness:
  "preparation_agent answering_workflow = prepare_onboarding_guide answering_agent
   \<and> repositories (initial_state profile0) = []
   \<and> selected_repo_name (initial_state profile0) = None
   \<and> user_profile (initial_state profile0) = Some profile0
   \<and> length (fst (prepare_onboarding_node answering_workflow (initial_state profile0))) = 1
   \<and> (\<exists>e. error (snd (prepare_onboarding_node answering_workflow (initial_state profile0)))
            = Some (''Error preparing guide: '' @ e))"
proof -
  have h: "preparation_agent answering_workflow = prepare_onboarding_guide answering_agent
     \<and> repositories (initial_state profile0) = []
     \<and> selected_repo_name (initial_state profile0) = None
     \<and> user_profile (initial_state profile0) = Some profile0"
    by (simp add: answering_workflow_def initial_state_def)
  from preparation_without_repository [of answering_workflow answering_agent
      "initial_state profile0" profile0] h
  show ?thesis by auto
qed

section \<open>What a run computes\<close>

lemmas graph_defs = compile_def add_edge_def add_node_def set_entry_point_def new_StateGraph_def
  ainvoke_def recursion_limit_def END_def

lemma run_full_workflow_closed:
  "run_full_workflow self profile =
     Inr \<lparr>history =
            [(''scout_repositories'', superstep (scout_repositories_node self) (initial_state profile)),
             (''prepare_onboarding'',
                superstep (prepare_onboarding_node self)
                  (superstep (scout_repositories_node self) (initial_state profile))),
             (''match_issues'',
                superstep (match_issues_node self)
                  (superstep (prepare_onboarding_node self)
                    (superstep (scout_repositories_node self) (initial_state profile)))),
             (''create_mentoring_plan'',
                superstep (create_mentoring_plan_node self)
                  (superstep (match_issues_node self)
                    (superstep (prepare_onboarding_node self)
                      (superstep (scout_repositories_node self) (initial_state profile)))))],
          provider_calls =
            fst (scout_repositories_node self (initial_state profile)) @
            fst (prepare_onboarding_node self
                  (superstep (scout_repositories_node self) (initial_state profile))) @
            fst (match_issues_node self
                  (superstep (prepare_onboarding_node self)
                    (superstep (scout_repositories_node self) (initial_state profile)))) @
            fst (create_mentoring_plan_node self
                  (superstep (match_issues_node self)
                    (superstep (prepare_onboarding_node self)
                      (superstep (scout_repositories_node self) (initial_state profile))))),
          final_state =
            superstep (create_mentoring_plan_node self)
              (superstep (match_issues_node self)
                (superstep (prepare_onboarding_node self)
                  (superstep (scout_repositories_node self) (initial_state profile))))\<rparr>"
  by (simp add: run_full_workflow_def build_workflow_def graph_defs eval_nat_numeral
        superstep_def Let_def case_prod_beta)

lemma run_partial_prepare_closed:
  "run_partial_workflow self ''prepare_onboarding'' s =
     Inr \<lparr>history =
            [(''prepare_onboarding'', superstep (prepare_onboarding_node self) s),
             (''match_issues'',
                superstep (match_issues_node self) (superstep (prepare_onboarding_node self) s)),
             (''create_mentoring_plan'',
                superstep (create_mentoring_plan_node self)
                  (superstep (match_issues_node self) (superstep (prepare_onboarding_node self) s)))],
          provider_calls =
            fst (prepare_onboarding_node self s) @
            fst (match_issues_node self (superstep (prepare_onboarding_node self) s)) @
            fst (create_mentoring_plan_node self
                  (superstep (match_issues_node self) (superstep (prepare_onboarding_node self) s))),
          final_state =
            superstep (create_mentoring_plan_node self)
              (superstep (match_issues_node self) (superstep (prepare_onboarding_node self) s))\<rparr>"
  by (simp add: run_partial_workflow_def partial_graph_def graph_defs eval_nat_numeral
        superstep_def Let_def case_prod_beta)

lemma run_partial_match_closed:
  "run_partial_workflow self ''match_issues'' s =
     Inr \<lparr>history =
            [(''match_issues'', superstep (match_issues_node self) s),
             (''create_mentoring_plan'',
                superstep (create_mentoring_plan_node self) (superstep (match_issues_node self) s))],
          provider_calls =
            fst (match_issues_node self s) @
            fst (create_mentoring_plan_node self (superstep (match_issues_node self) s)),
          final_state =
            superstep (create_mentoring_plan_node self) (superstep (match_issues_node self) s)\<rparr>"
  by (simp add: run_partial_workflow_def partial_graph_def graph_defs eval_nat_numeral
        superstep_def Let_def case_prod_beta)

lemma run_partial_mentor_closed:
  "run_partial_workflow self ''create_mentoring_plan'' s =
     Inr \<lparr>history = [(''create_mentoring_plan'', superstep (create_mentoring_plan_node self) s)],
          provider_calls = fst (create_mentoring_plan_node self s),
          final_state = superstep (create_mentoring_plan_node self) s\<rparr>"
  by (simp add: run_partial_workflow_def partial_graph_def graph_defs eval_nat_numeral
        superstep_def Let_def case_prod_beta)

lemma run_partial_other:
  "n \<noteq> ''prepare_onboarding'' \<Longrightarrow> n \<noteq> ''match_issues'' \<Longrightarrow> n \<noteq> ''create_mentoring_plan'' \<Longrightarrow>
   run_partial_workflow self n s = Inl (ValueError ''Graph must have an entrypoint'')"
  by (simp add: run_partial_workflow_def partial_graph_def graph_defs)

text \<open>What one superstep does to each field, per stage.\<close>

lemma superstep_messages:
  "messages (superstep f s) = messages s @ messages (snd (f s))"
  by (simp add: superstep_def apply_writes_def)

lemma superstep_other:
  "user_profile (superstep f s) = user_profile (snd (f s))"
  "repositories (superstep f s) = repositories (snd (f s))"
  "selected_repo_name (superstep f s) = selected_repo_name (snd (f s))"
  "selected_repo_url (superstep f s) = selected_repo_url (snd (f s))"
  "issues (superstep f s) = issues (snd (f s))"
  "selected_issue_number (superstep f s) = selected_issue_number (snd (f s))"
  "contribution_guide (superstep f s) = contribution_guide (snd (f s))"
  "mentoring_plan (superstep f s) = mentoring_plan (snd (f s))"
  "current_step (superstep f s) = current_step (snd (f s))"
  "error (superstep f s) = error (snd (f s))"
  by (simp_all add: superstep_def apply_writes_def)

lemma node_messages:
  "\<exists>m. messages (snd (scout_repositories_node self s)) = messages s @ [m]"
  "\<exists>m. messages (snd (prepare_onboarding_node self s)) = messages s @ [m]"
  "\<exists>m. messages (snd (match_issues_node self s)) = messages s @ [m]"
  "\<exists>m. messages (snd (create_mentoring_plan_node self s)) = messages s @ [m]"
  by (auto simp: scout_repositories_node_def prepare_onboarding_node_def match_issues_node_def
        create_mentoring_plan_node_def Let_def default_repo_frame default_issue_frame
        split: prod.splits sum.splits)

lemma scout_frame:
  "user_profile (snd (scout_repositories_node self s)) = user_profile s"
  "selected_repo_name (snd (scout_repositories_node self s)) = selected_repo_name s"
  "selected_repo_url (snd (scout_repositories_node self s)) = selected_repo_url s"
  "issues (snd (scout_repositories_node self s)) = issues s"
  "selected_issue_number (snd (scout_repositories_node self s)) = selected_issue_number s"
  "contribution_guide (snd (scout_repositories_node self s)) = contribution_guide s"
  "mentoring_plan (snd (scout_repositories_node self s)) = mentoring_plan s"
  by (simp_all add: scout_repositories_node_def split: prod.splits sum.splits)

lemma prepare_frame:
  "user_profile (snd (prepare_onboarding_node self s)) = user_profile s"
  "repositories (snd (prepare_onboarding_node self s)) = repositories s"
  "selected_repo_name (snd (prepare_onboarding_node self s)) = selected_repo_name (default_repo s)"
  "selected_repo_url (snd (prepare_onboarding_node self s)) = selected_repo_url (default_repo s)"
  "issues (snd (prepare_onboarding_node self s)) = issues s"
  "selected_issue_number (snd (prepare_onboarding_node self s)) = selected_issue_number s"
  "mentoring_plan (snd (prepare_onboarding_node self s)) = mentoring_plan s"
  by (simp_all add: prepare_onboarding_node_def Let_def default_repo_frame
        split: prod.splits sum.splits)

lemma match_frame:
  "user_profile (snd (match_issues_node self s)) = user_profile s"
  "repositories (snd (match_issues_node self s)) = repositories s"
  "selected_repo_name (snd (match_issues_node self s)) = selected_repo_name s"
  "selected_repo_url (snd (match_issues_node self s)) = selected_repo_url s"
  "selected_issue_number (snd (match_issues_node self s)) = selected_issue_number s"
  "contribution_guide (snd (match_issues_node self s)) = contribution_guide s"
  "mentoring_plan (snd (match_issues_node self s)) = mentoring_plan s"
  by (simp_all add: match_issues_node_def split: prod.splits sum.splits)

lemma mentor_frame:
  "user_profile (snd (create_mentoring_plan_node self s)) = user_profile s"
  "repositories (snd (create_mentoring_plan_node self s)) = repositories s"
  "selected_repo_name (snd (create_mentoring_plan_node self s)) = selected_repo_name s"
  "selected_repo_url (snd (create_mentoring_plan_node self s)) = selected_repo_url s"
  "issues (snd (create_mentoring_plan_node self s)) = issues s"
  "selected_issue_number (snd (create_mentoring_plan_node self s))
     = selected_issue_number (default_issue s)"
  "contribution_guide (snd (create_mentoring_plan_node self s)) = contribution_guide s"
  by (simp_all add: create_mentoring_plan_node_def Let_def default_issue_frame
        split: prod.splits sum.splits)

lemma node_error:
  "error (snd (scout_repositories_node self s)) =
     (case snd (scout_agent self (user_profile s)) of
        Inl e \<Rightarrow> Some (''Error scouting repositories: '' @ e) | Inr _ \<Rightarrow> error s)"
  "error (snd (prepare_onboarding_node self s)) =
     (case snd (preparation_agent self (user_profile s) (selected_repo_name (default_repo s))) of
        Inl e \<Rightarrow> Some (''Error preparing guide: '' @ e) | Inr _ \<Rightarrow> error s)"
  "error (snd (match_issues_node self s)) =
     (case snd (issue_matcher self (user_profile s) (selected_repo_name s)) of
        Inl e \<Rightarrow> Some (''Error matching issues: '' @ e) | Inr _ \<Rightarrow> error s)"
  "error (snd (create_mentoring_plan_node self s)) =
     (case snd (mentoring_agent self (user_profile s) (selected_repo_name s)
                 (selected_issue_number (default_issue s))) of
        Inl e \<Rightarrow> Some (''Error creating plan: '' @ e) | Inr _ \<Rightarrow> error s)"
  by (simp_all add: scout_repositories_node_def prepare_onboarding_node_def match_issues_node_def
        create_mentoring_plan_node_def Let_def default_repo_frame default_issue_frame
        split: prod.splits sum.splits)

section \<open>The full run\<close>

text \<open>
  For every workflow and profile the full run returns; it executes the four stages in
  the fixed order whatever the agents do, and the state it returns is the graph state
  after the last stage.
\<close>

lemma run_full_workflow_stages:
  "\<exists>r. run_full_workflow self profile = Inr r
     \<and> map fst (history r) =
         [''scout_repositories'', ''prepare_onboarding'', ''match_issues'', ''create_mentoring_plan'']
     \<and> final_state r = snd (last (history r))"
  by (simp add: run_full_workflow_closed)

text \<open>
  C1. The run builds the initial state the claim describes and executes the four
  stages in order without short-circuit, but under the reducer on \<open>messages\<close> the
  state handed to the next stage is not the state the previous stage returned, and the
  state the run returns is not the state the last stage returned: the returned
  \<open>messages\<close> are appended to the current ones although each node has already
  appended its entry to a copy of them. With agents that all succeed, Scout returns two
  messages, Preparation is handed three, and the run ends with 31 where the Mentor node
  returned 16.
\<close>

theorem full_run_messages_duplicated:
  "\<exists>r. run_full_workflow working_agents profile0 = Inr r
     \<and> map fst (history r) =
         [''scout_repositories'', ''prepare_onboarding'', ''match_issues'', ''create_mentoring_plan'']
     \<and> messages (initial_state profile0) = [''Starting CodePathfinder workflow'']
     \<and> messages (snd (scout_repositories_node working_agents (initial_state profile0)))
         = [''Starting CodePathfinder workflow'', ''Found 1 suitable repositories'']
     \<and> messages (snd (hd (history r)))
         = [''Starting CodePathfinder workflow'', ''Starting CodePathfinder workflow'',
            ''Found 1 suitable repositories'']
     \<and> length (messages (snd (create_mentoring_plan_node working_agents (snd (history r ! 2))))) = 16
     \<and> length (messages (final_state r)) = 31"
  by (simp add: run_full_workflow_closed superstep_def apply_writes_def
        scout_repositories_node_def prepare_onboarding_node_def match_issues_node_def
        create_mentoring_plan_node_def default_repo_def default_issue_def Let_def
        working_agents_def initial_state_def str_nat_small digit_def)

section \<open>The error field over a run\<close>

text \<open>
  C4. In every full run all four stages execute, and \<open>error\<close> evolves as follows:
  a stage whose agent call raises sets it to its own message, a stage whose agent call
  returns leaves it as it was. So once it is non-null it stays non-null, and at the end
  it carries the message of the last stage that failed. The same holds of each stage
  transition on any state, hence of partial runs.
\<close>

theorem error_sticky:
  "\<exists>r s1 s2 s3 s4.
     run_full_workflow self profile = Inr r
     \<and> history r = [(''scout_repositories'', s1), (''prepare_onboarding'', s2),
                     (''match_issues'', s3), (''create_mentoring_plan'', s4)]
     \<and> final_state r = s4
     \<and> error s1 = (case snd (scout_agent self (Some profile)) of
                      Inl e \<Rightarrow> Some (''Error scouting repositories: '' @ e) | Inr _ \<Rightarrow> None)
     \<and> error s2 = (case snd (preparation_agent self (Some profile) (selected_repo_name s2)) of
                      Inl e \<Rightarrow> Some (''Error preparing guide: '' @ e) | Inr _ \<Rightarrow> error s1)
     \<and> error s3 = (case snd (issue_matcher self (Some profile) (selected_repo_name s2)) of
                      Inl e \<Rightarrow> Some (''Error matching issues: '' @ e) | Inr _ \<Rightarrow> error s2)
     \<and> error s4 = (case snd (mentoring_agent self (Some profile) (selected_repo_name s2)
                               (selected_issue_number s4)) of
                      Inl e \<Rightarrow> Some (''Error creating plan: '' @ e) | Inr _ \<Rightarrow> error s3)
     \<and> (error s1 \<noteq> None \<longrightarrow> error s2 \<noteq> None)
     \<and> (error s2 \<noteq> None \<longrightarrow> error s3 \<noteq> None)
     \<and> (error s3 \<noteq> None \<longrightarrow> error s4 \<noteq> None)
     \<and> (error s \<noteq> None \<longrightarrow>
          error (snd (scout_repositories_node self s)) \<noteq> None
          \<and> error (snd (prepare_onboarding_node self s)) \<noteq> None
          \<and> error (snd (match_issues_node self s)) \<noteq> None
          \<and> error (snd (create_mentoring_plan_node self s)) \<noteq> None)"
  by (simp add: run_full_workflow_closed superstep_other node_error scout_frame prepare_frame
        match_frame mentor_frame default_repo_frame default_issue_frame initial_state_def
        split: sum.splits)

theorem error_sticky_witness:
  "\<exists>r s1 s2 s3 s4.
     run_full_workflow flaky_agents profile0 = Inr r
     \<and> history r = [(''scout_repositories'', s1), (''prepare_onboarding'', s2),
                     (''match_issues'', s3), (''create_mentoring_plan'', s4)]
     \<and> error s1 = None
     \<and> error s2 = Some ''Error preparing guide: no guide''
     \<and> error s3 = Some ''Error preparing guide: no guide''
     \<and> error s4 = Some ''Error creating plan: no plan''
     \<and> error (final_state r) = Some ''Error creating plan: no plan''"
  using error_sticky [of flaky_agents profile0 "initial_state profile0"]
  by (auto simp: flaky_agents_def)

section \<open>The message log\<close>

text \<open>
  C5, as stated, fails: a full run never ends with four messages. The initial state
  already holds one, so feeding each node's returned state straight to the next gives
  five; the run through the graph ends with more.
\<close>

theorem message_count_counterexample:
  "length (messages (snd (create_mentoring_plan_node failing_agents
        (snd (match_issues_node failing_agents
          (snd (prepare_onboarding_node failing_agents
            (snd (scout_repositories_node failing_agents (initial_state profile0)))))))))) = 5
   \<and> (\<exists>r. run_full_workflow failing_agents profile0 = Inr r
          \<and> length (messages (final_state r)) \<noteq> 4)"
  by (simp add: run_full_workflow_closed superstep_def apply_writes_def
        scout_repositories_node_def prepare_onboarding_node_def match_issues_node_def
        create_mentoring_plan_node_def default_repo_def default_issue_def Let_def
        failing_agents_def initial_state_def)

text \<open>
  C5, amended. Every stage transition returns the input's messages followed by exactly
  one new entry, whether its agent call succeeds or fails; the initial state of a full
  run holds one message; the graph state's messages after a stage extend those before
  it; and a full run returns with the initial message first and more than four
  messages in all.
\<close>

theorem messages_grow_by_one:
  "(\<exists>m. messages (snd (scout_repositories_node self s)) = messages s @ [m])
   \<and> (\<exists>m. messages (snd (prepare_onboarding_node self s)) = messages s @ [m])
   \<and> (\<exists>m. messages (snd (match_issues_node self s)) = messages s @ [m])
   \<and> (\<exists>m. messages (snd (create_mentoring_plan_node self s)) = messages s @ [m])
   \<and> length (messages (initial_state profile)) = 1
   \<and> prefix (messages s) (messages (superstep f s))
   \<and> (\<exists>r. run_full_workflow self profile = Inr r
          \<and> prefix (messages (initial_state profile)) (messages (final_state r))
          \<and> 4 < length (messages (final_state r)))"
proof -
  let ?s1 = "superstep (scout_repositories_node self) (initial_state profile)"
  let ?s2 = "superstep (prepare_onboarding_node self) ?s1"
  let ?s3 = "superstep (match_issues_node self) ?s2"
  let ?s4 = "superstep (create_mentoring_plan_node self) ?s3"
  have grow: "\<And>g t. prefix (messages t) (messages (superstep g t))"
    by (simp add: superstep_messages)
  have l0: "length (messages (initial_state profile)) = 1"
    by (simp add: initial_state_def)
  obtain m1 where "messages (snd (scout_repositories_node self (initial_state profile)))
      = messages (initial_state profile) @ [m1]"
    using node_messages(1) by blast
  then have l1: "length (messages ?s1) = 3"
    using l0 by (simp add: superstep_messages)
  have "length (messages ?s1) \<le> length (messages ?s2)"
    using grow by (rule prefix_length_le)
  moreover have "length (messages ?s2) \<le> length (messages ?s3)"
    using grow by (rule prefix_length_le)
  moreover obtain m4 where "messages (snd (create_mentoring_plan_node self ?s3))
      = messages ?s3 @ [m4]"
    using node_messages(4) by blast
  then have "length (messages ?s4) = 2 * length (messages ?s3) + 1"
    by (simp add: superstep_messages)
  ultimately have big: "4 < length (messages ?s4)"
    using l1 by linarith
  have pre: "prefix (messages (initial_state profile)) (messages ?s4)"
    using grow prefix_order.order_trans by blast
  show ?thesis
    using node_messages [of self s] l0 grow big pre
    by (simp add: run_full_workflow_closed)
qed

section \<open>Default selections\<close>

text \<open>
  C7. On a state with a non-empty \<open>repositories\<close> and no \<open>selected_repo_name\<close>, the
  Preparation transition returns the first repository's name and URL as the selection,
  and in the run that continues from there every later graph state carries the same
  two values; the issue selection is the input's until the Mentor stage, whose
  default is what the run returns. The same holds in a full run when Scout has returned
  a non-empty list.
\<close>

theorem default_selection_persists:
  "(repositories s \<noteq> [] \<and> selected_repo_name s = None \<longrightarrow>
      selected_repo_name (snd (prepare_onboarding_node self s)) = Some (repo_name (hd (repositories s)))
      \<and> selected_repo_url (snd (prepare_onboarding_node self s)) = Some (repo_url (hd (repositories s)))
      \<and> (\<exists>r s1 s2 s3.
            run_partial_workflow self ''prepare_onboarding'' s = Inr r
            \<and> history r = [(''prepare_onboarding'', s1), (''match_issues'', s2),
                            (''create_mentoring_plan'', s3)]
            \<and> final_state r = s3
            \<and> selected_repo_name s1 = Some (repo_name (hd (repositories s)))
            \<and> selected_repo_name s2 = Some (repo_name (hd (repositories s)))
            \<and> selected_repo_name s3 = Some (repo_name (hd (repositories s)))
            \<and> selected_repo_url s1 = Some (repo_url (hd (repositories s)))
            \<and> selected_repo_url s2 = Some (repo_url (hd (repositories s)))
            \<and> selected_repo_url s3 = Some (repo_url (hd (repositories s)))
            \<and> selected_issue_number s1 = selected_issue_number s
            \<and> selected_issue_number s2 = selected_issue_number s
            \<and> selected_issue_number s3 = selected_issue_number (default_issue s2)))
   \<and> (snd (scout_agent self (Some profile)) = Inr (a # rest) \<longrightarrow>
      (\<exists>r s1 s2 s3 s4.
            run_full_workflow self profile = Inr r
            \<and> history r = [(''scout_repositories'', s1), (''prepare_onboarding'', s2),
                            (''match_issues'', s3), (''create_mentoring_plan'', s4)]
            \<and> final_state r = s4
            \<and> selected_repo_name s1 = None
            \<and> selected_repo_name s2 = Some (repo_name a)
            \<and> selected_repo_name s3 = Some (repo_name a)
            \<and> selected_repo_name s4 = Some (repo_name a)
            \<and> selected_repo_url s2 = Some (repo_url a)
            \<and> selected_repo_url s3 = Some (repo_url a)
            \<and> selected_repo_url s4 = Some (repo_url a)
            \<and> selected_issue_number s4 = selected_issue_number (default_issue s3)))"
proof (intro conjI impI)
  assume h: "repositories s \<noteq> [] \<and> selected_repo_name s = None"
  then obtain x xs where x: "repositories s = x # xs" by (cases "repositories s") auto
  with h have d: "selected_repo_name (default_repo s) = Some (repo_name (hd (repositories s)))"
      "selected_repo_url (default_repo s) = Some (repo_url (hd (repositories s)))"
    by (simp_all add: default_repo_def)
  show "selected_repo_name (snd (prepare_onboarding_node self s)) = Some (repo_name (hd (repositories s)))"
    by (simp add: prepare_frame d)
  show "selected_repo_url (snd (prepare_onboarding_node self s)) = Some (repo_url (hd (repositories s)))"
    by (simp add: prepare_frame d)
  show "\<exists>r s1 s2 s3.
            run_partial_workflow self ''prepare_onboarding'' s = Inr r
            \<and> history r = [(''prepare_onboarding'', s1), (''match_issues'', s2),
                            (''create_mentoring_plan'', s3)]
            \<and> final_state r = s3
            \<and> selected_repo_name s1 = Some (repo_name (hd (repositories s)))
            \<and> selected_repo_name s2 = Some (repo_name (hd (repositories s)))
            \<and> selected_repo_name s3 = Some (repo_name (hd (repositories s)))
            \<and> selected_repo_url s1 = Some (repo_url (hd (repositories s)))
            \<and> selected_repo_url s2 = Some (repo_url (hd (repositories s)))
            \<and> selected_repo_url s3 = Some (repo_url (hd (repositories s)))
            \<and> selected_issue_number s1 = selected_issue_number s
            \<and> selected_issue_number s2 = selected_issue_number s
            \<and> selected_issue_number s3 = selected_issue_number (default_issue s2)"
    by (simp add: run_partial_prepare_closed superstep_other prepare_frame match_frame
          mentor_frame d)
next
  assume h: "snd (scout_agent self (Some profile)) = Inr (a # rest)"
  let ?s1 = "superstep (scout_repositories_node self) (initial_state profile)"
  have r1: "repositories ?s1 = a # rest"
    using h by (cases "scout_agent self (Some profile)")
      (simp add: superstep_other scout_repositories_node_def initial_state_def)
  have n1: "selected_repo_name ?s1 = None"
    by (simp add: superstep_other scout_frame initial_state_def)
  from r1 n1 have d: "selected_repo_name (default_repo ?s1) = Some (repo_name a)"
      "selected_repo_url (default_repo ?s1) = Some (repo_url a)"
    by (simp_all add: default_repo_def)
  show "\<exists>r s1 s2 s3 s4.
            run_full_workflow self profile = Inr r
            \<and> history r = [(''scout_repositories'', s1), (''prepare_onboarding'', s2),
                            (''match_issues'', s3), (''create_mentoring_plan'', s4)]
            \<and> final_state r = s4
            \<and> selected_repo_name s1 = None
            \<and> selected_repo_name s2 = Some (repo_name a)
            \<and> selected_repo_name s3 = Some (repo_name a)
            \<and> selected_repo_name s4 = Some (repo_name a)
            \<and> selected_repo_url s2 = Some (repo_url a)
            \<and> selected_repo_url s3 = Some (repo_url a)
            \<and> selected_repo_url s4 = Some (repo_url a)
            \<and> selected_issue_number s4 = selected_issue_number (default_issue s3)"
    using n1 d
    by (simp add: run_full_workflow_closed superstep_other prepare_frame match_frame mentor_frame)
qed

theorem default_selection_persists_witness:
  "repositories scouted_state \<noteq> [] \<and> selected_repo_name scouted_state = None
   \<and> selected_repo_name (snd (prepare_onboarding_node flaky_agents scouted_state))
       = Some ''octo/alpha''
   \<and> (\<exists>r. run_partial_workflow flaky_agents ''prepare_onboarding'' scouted_state = Inr r
          \<and> selected_repo_name (final_state r) = Some ''octo/alpha''
          \<and> selected_repo_url (final_state r) = Some ''https://github.com/octo/alpha'')
   \<and> snd (scout_agent flaky_agents (Some profile0)) = Inr [repoA]
   \<and> (\<exists>r. run_full_workflow flaky_agents profile0 = Inr r
          \<and> selected_repo_name (final_state r) = Some ''octo/alpha'')"
proof -
  have h1: "repositories scouted_state \<noteq> [] \<and> selected_repo_name scouted_state = None"
    by (simp add: scouted_state_def initial_state_def)
  have h2: "snd (scout_agent flaky_agents (Some profile0)) = Inr (repoA # [])"
    by (simp add: flaky_agents_def)
  have v: "repo_name (hd (repositories scouted_state)) = ''octo/alpha''"
      "repo_url (hd (repositories scouted_state)) = ''https://github.com/octo/alpha''"
      "repo_name repoA = ''octo/alpha''"
    by (simp_all add: scouted_state_def repoA_def)
  from default_selection_persists [of scouted_state flaky_agents profile0 repoA "[]"] h1 h2 v
  show ?thesis by auto
qed

section \<open>Partial runs\<close>

text \<open>
  C9. A partial run from \<open>match_issues\<close> returns, having executed exactly the two
  stages Issue-Matcher and Mentor in that order; \<open>repositories\<close> and
  \<open>contribution_guide\<close> of the returned state are those of the supplied state.
\<close>

theorem partial_run_from_match_issues:
  "\<exists>r. run_partial_workflow self ''match_issues'' s = Inr r
     \<and> map fst (history r) = [''match_issues'', ''create_mentoring_plan'']
     \<and> repositories (final_state r) = repositories s
     \<and> contribution_guide (final_state r) = contribution_guide s"
  by (simp add: run_partial_match_closed superstep_other match_frame mentor_frame)

text \<open>
  C8, as stated, fails: \<open>scout_repositories\<close> is one of the four stage names, and the
  partial run rejects it like any unknown name.
\<close>

theorem partial_run_scout_counterexample:
  "run_partial_workflow working_agents ''scout_repositories'' scouted_state
     = Inl (ValueError ''Graph must have an entrypoint'')"
  by (simp add: run_partial_other)

text \<open>
  C8, amended. The partial run accepts exactly the three entry points
  \<open>prepare_onboarding\<close>, \<open>match_issues\<close> and \<open>create_mentoring_plan\<close>: from each of
  them it returns, having executed that stage first. Every other name, the fourth
  stage name \<open>scout_repositories\<close> included, leaves the graph without nodes and entry
  point, and the run ends with the error raised when the graph is compiled, before
  any stage has executed; no state is returned or changed.
\<close>

theorem partial_run_entry_points:
  "(n \<in> {''prepare_onboarding'', ''match_issues'', ''create_mentoring_plan''} \<longrightarrow>
      (\<exists>r. run_partial_workflow self n s = Inr r \<and> fst (hd (history r)) = n))
   \<and> (n \<notin> {''prepare_onboarding'', ''match_issues'', ''create_mentoring_plan''} \<longrightarrow>
      run_partial_workflow self n s = Inl (ValueError ''Graph must have an entrypoint'')
      \<and> compile (partial_graph self n) = Inl (ValueError ''Graph must have an entrypoint''))"
proof (intro conjI impI)
  assume "n \<in> {''prepare_onboarding'', ''match_issues'', ''create_mentoring_plan''}"
  then consider "n = ''prepare_onboarding''" | "n = ''match_issues''"
    | "n = ''create_mentoring_plan''" by blast
  then show "\<exists>r. run_partial_workflow self n s = Inr r \<and> fst (hd (history r)) = n"
  proof cases
    case 1 then show ?thesis by (simp add: run_partial_prepare_closed)
  next
    case 2 then show ?thesis by (simp add: run_partial_match_closed)
  next
    case 3 then show ?thesis by (simp add: run_partial_mentor_closed)
  qed
next
  assume h: "n \<notin> {''prepare_onboarding'', ''match_issues'', ''create_mentoring_plan''}"
  then show "run_partial_workflow self n s = Inl (ValueError ''Graph must have an entrypoint'')"
    by (simp add: run_partial_other)
  from h show "compile (partial_graph self n) = Inl (ValueError ''Graph must have an entrypoint'')"
    by (simp add: partial_graph_def compile_def new_StateGraph_def)
qed

theorem partial_run_entry_points_witness:
  "''create_mentoring_plan'' \<in> {''prepare_onboarding'', ''match_issues'', ''create_mentoring_plan''}
   \<and> (\<exists>r. run_partial_workflow working_agents ''create_mentoring_plan'' scouted_state = Inr r
          \<and> fst (hd (history r)) = ''create_mentoring_plan'')
   \<and> ''restart'' \<notin> {''prepare_onboarding'', ''match_issues'', ''create_mentoring_plan''}
   \<and> run_partial_workflow working_agents ''restart'' scouted_state
       = Inl (ValueError ''Graph must have an entrypoint'')"
  using partial_run_entry_points [of "''create_mentoring_plan''" working_agents scouted_state]
    partial_run_entry_points [of "''restart''" working_agents scouted_state]
  by simp

end
